theory Spec2Isabelle
  imports Complex_Main
begin

section \<open>Strings as Python sees them\<close>

text \<open>
  A Python \<open>str\<close> is modelled as a \<open>string\<close>, one \<open>char\<close> per code point; only the code
  points below 256 exist in the model. The predicates below classify them as
  \<open>str.isspace\<close>, \<open>str.isalpha\<close> and \<open>str.lower\<close> do on that range.
\<close>

definition nl :: char where
  "nl = CHR 0x0A"

definition cr :: char where
  "cr = CHR 0x0D"

definition isspace_char :: "char \<Rightarrow> bool" where
  "isspace_char c =
     (let n = (of_char c :: nat)
      in (9 \<le> n \<and> n \<le> 13) \<or> (28 \<le> n \<and> n \<le> 32) \<or> n = 133 \<or> n = 160)"

definition isalpha_char :: "char \<Rightarrow> bool" where
  "isalpha_char c =
     (let n = (of_char c :: nat)
      in (65 \<le> n \<and> n \<le> 90) \<or> (97 \<le> n \<and> n \<le> 122) \<or> n = 170 \<or> n = 181 \<or> n = 186
         \<or> (192 \<le> n \<and> n \<le> 214) \<or> (216 \<le> n \<and> n \<le> 246) \<or> (248 \<le> n \<and> n \<le> 255))"

definition isdigit_char :: "char \<Rightarrow> bool" where
  "isdigit_char c = (let n = (of_char c :: nat) in 48 \<le> n \<and> n \<le> 57)"

definition lower_char :: "char \<Rightarrow> char" where
  "lower_char c =
     (let n = (of_char c :: nat)
      in if (65 \<le> n \<and> n \<le> 90) \<or> (192 \<le> n \<and> n \<le> 214) \<or> (216 \<le> n \<and> n \<le> 222)
         then char_of (n + 32) else c)"

text \<open>\<open>s.lower()\<close>, \<open>s.strip()\<close>, \<open>s.isalpha()\<close> (false on the empty string).\<close>

definition lower :: "string \<Rightarrow> string" where
  "lower s = map lower_char s"

definition strip :: "string \<Rightarrow> string" where
  "strip s = rev (dropWhile isspace_char (rev (dropWhile isspace_char s)))"

definition isalpha :: "string \<Rightarrow> bool" where
  "isalpha s = (s \<noteq> [] \<and> list_all isalpha_char s)"

text \<open>\<open>sub in s\<close> on two strings: \<open>sub\<close> occurs in \<open>s\<close> as a contiguous piece.\<close>

fun starts_with :: "string \<Rightarrow> string \<Rightarrow> bool" where
  "starts_with [] s = True"
| "starts_with (p # ps) [] = False"
| "starts_with (p # ps) (c # cs) = (p = c \<and> starts_with ps cs)"

fun str_in :: "string \<Rightarrow> string \<Rightarrow> bool" where
  "str_in sub [] = (sub = [])"
| "str_in sub (c # cs) = (starts_with sub (c # cs) \<or> str_in sub cs)"

definition endswith :: "string \<Rightarrow> string \<Rightarrow> bool" where
  "endswith s suf = (length suf \<le> length s \<and> drop (length s - length suf) s = suf)"

text \<open>\<open>sep.join(xs)\<close> and \<open>s.split(sep)\<close> for a one-character separator.\<close>

fun join :: "string \<Rightarrow> string list \<Rightarrow> string" where
  "join sep [] = []"
| "join sep [x] = x"
| "join sep (x # y # ys) = x @ sep @ join sep (y # ys)"

fun split :: "char \<Rightarrow> string \<Rightarrow> string list" where
  "split sep [] = [[]]"
| "split sep (c # cs) =
     (if c = sep then [] # split sep cs
      else (case split sep cs of [] \<Rightarrow> [[c]] | p # ps \<Rightarrow> (c # p) # ps))"

text \<open>
  \<open>str(n)\<close> of an integer, and \<open>int(s)\<close> of a string: surrounding whitespace, one
  optional sign, decimal digits with single underscores between them; anything else is
  the ValueError, here \<open>None\<close>. (The interpreter's configurable cap on the number of
  digits is not part of the model.)
\<close>

fun str_nat :: "nat \<Rightarrow> string" where
  "str_nat n =
     (if n < 10 then [char_of (48 + n)]
      else str_nat (n div 10) @ [char_of (48 + n mod 10)])"

declare str_nat.simps [simp del]

definition str_int :: "int \<Rightarrow> string" where
  "str_int i = (if i < 0 then CHR ''-'' # str_nat (nat (- i)) else str_nat (nat i))"

definition digit_val :: "char \<Rightarrow> nat" where
  "digit_val c = of_char c - 48"

fun int_digits :: "nat \<Rightarrow> string \<Rightarrow> nat option" where
  "int_digits acc [] = Some acc"
| "int_digits acc (c # cs) =
     (if isdigit_char c then int_digits (10 * acc + digit_val c) cs
      else if c = CHR ''_'' then
        (case cs of
           [] \<Rightarrow> None
         | d # ds \<Rightarrow> if isdigit_char d then int_digits (10 * acc + digit_val d) ds else None)
      else None)"

definition int_unsigned :: "string \<Rightarrow> nat option" where
  "int_unsigned s =
     (case s of
        [] \<Rightarrow> None
      | c # cs \<Rightarrow> if isdigit_char c then int_digits (digit_val c) cs else None)"

definition py_int :: "string \<Rightarrow> int option" where
  "py_int s =
     (case strip s of
        [] \<Rightarrow> None
      | c # cs \<Rightarrow>
          if c = CHR ''-'' then map_option (\<lambda>n. - int n) (int_unsigned cs)
          else if c = CHR ''+'' then map_option int (int_unsigned cs)
          else map_option int (int_unsigned (c # cs)))"

text \<open>\<open>int(x)\<close> of a float: the fractional part is dropped, towards zero.\<close>

definition int_of_float :: "real \<Rightarrow> int" where
  "int_of_float x = (if 0 \<le> x then \<lfloor>x\<rfloor> else \<lceil>x\<rceil>)"


section \<open>The game state\<close>

definition MAX_SCORE :: int where
  "MAX_SCORE = 100"

definition INITIAL_TIME :: int where
  "INITIAL_TIME = 30"

definition HINT_THRESHOLD :: int where
  "HINT_THRESHOLD = 3"

definition CUSTOM_WORD_FILE :: string where
  "CUSTOM_WORD_FILE = ''custom_words.csv''"

definition DIFFICULTY_PARAMS :: "string \<rightharpoonup> nat \<times> nat" where
  "DIFFICULTY_PARAMS = [''easy'' \<mapsto> (4, 5), ''medium'' \<mapsto> (6, 7), ''hard'' \<mapsto> (8, 20)]"

text \<open>
  The state dictionary of a round. \<open>guessed_letters\<close> is a Python set of strings: a list
  without repetitions here, in the order the set happens to iterate; adding is
  \<open>List.insert\<close>.
\<close>

record game_state =
  word :: string
  guessed_letters :: "string list"
  score :: int
  time_left :: int
  incorrect_guesses :: int
  hint_used :: bool

definition create_game_state :: "string \<Rightarrow> string list \<Rightarrow> int \<Rightarrow> int \<Rightarrow> game_state" where
  "create_game_state w gl sc t =
     \<lparr> word = lower w,
       guessed_letters = (if gl \<noteq> [] then remdups gl else []),
       score = sc,
       time_left = t,
       incorrect_guesses = 0,
       hint_used = False \<rparr>"

definition update_time :: "game_state \<Rightarrow> real \<Rightarrow> game_state \<times> bool" where
  "update_time state elapsed =
     (let state' = state\<lparr>time_left := time_left state - int_of_float elapsed\<rparr>
      in (state', time_left state' > 0))"

definition add_guess :: "game_state \<Rightarrow> string \<Rightarrow> game_state \<times> bool" where
  "add_guess state guess =
     (let state' = state\<lparr>guessed_letters := List.insert guess (guessed_letters state)\<rparr>
      in (state', str_in guess (word state')))"


section \<open>Save files\<close>

text \<open>
  The directory is a map from file names to file contents. Writing is taken to succeed;
  reading a name that is not there is the exception \<open>load_game_state\<close> catches.
\<close>

type_synonym files = "string \<rightharpoonup> string"

definition sanitize_filename :: "string \<Rightarrow> string" where
  "sanitize_filename filename =
     map (\<lambda>c. if (let n = (of_char c :: nat)
                  in (97 \<le> n \<and> n \<le> 122) \<or> (65 \<le> n \<and> n \<le> 90) \<or> (48 \<le> n \<and> n \<le> 57))
                 \<or> isspace_char c \<or> c = CHR ''.''
              then c else CHR ''_'') filename"

definition with_save_ext :: "string \<Rightarrow> string" where
  "with_save_ext filename =
     (if \<not> endswith filename ''.save'' then filename @ ''.save'' else filename)"

definition save_text :: "game_state \<Rightarrow> string" where
  "save_text state =
     word state @ '' '' @ [nl]
     @ join '','' (guessed_letters state) @ [nl]
     @ str_int (time_left state) @ [nl]"

definition save_game_state :: "files \<Rightarrow> string \<Rightarrow> game_state \<Rightarrow> files" where
  "save_game_state fs filename state =
     fs(with_save_ext (sanitize_filename filename) \<mapsto> save_text state)"

text \<open>
  Reading in text mode turns \<open>\r\n\<close> and a lone \<open>\r\<close> into \<open>\n\<close>; iterating the file
  gives its lines, the last one with or without its line end. Every line is stripped
  by the loader, so the line ends themselves are left out here.
\<close>

fun universal_newlines :: "string \<Rightarrow> string" where
  "universal_newlines [] = []"
| "universal_newlines [c] = [if c = cr then nl else c]"
| "universal_newlines (c # d # cs) =
     (if c = cr \<and> d = nl then nl # universal_newlines cs
      else if c = cr then nl # universal_newlines (d # cs)
      else c # universal_newlines (d # cs))"

definition file_lines :: "string \<Rightarrow> string list" where
  "file_lines text =
     (let ps = split nl (universal_newlines text)
      in if last ps = [] then butlast ps else ps)"

definition parse_save :: "string \<Rightarrow> game_state option" where
  "parse_save text =
     (case map strip (file_lines text) of
        l0 # l1 # l2 # l3 # rest \<Rightarrow>
          (case py_int l2 of
             None \<Rightarrow> None
           | Some sc \<Rightarrow>
               (case py_int l3 of
                  None \<Rightarrow> None
                | Some t \<Rightarrow>
                    Some (create_game_state l0 (if l1 \<noteq> [] then split CHR '','' l1 else []) sc t)))
      | _ \<Rightarrow> None)"

definition load_game_state :: "files \<Rightarrow> string \<Rightarrow> game_state option" where
  "load_game_state fs filename =
     (case fs (with_save_ext filename) of
        None \<Rightarrow> None
      | Some text \<Rightarrow> parse_save text)"


section \<open>Starting a round\<close>

text \<open>
  What the player types is a list of lines, one per call of \<open>input\<close>; reading past the
  last one is the EOFError. \<open>get_valid_input\<close> asks until the validator accepts the
  stripped, lower-cased answer, and returns it with the lines still unread.
\<close>

datatype error = NoWordsAvailable | EOFError | KeyError

fun get_valid_input :: "string list \<Rightarrow> (string \<Rightarrow> bool) \<Rightarrow> error + string \<times> string list" where
  "get_valid_input [] validator = Inl EOFError"
| "get_valid_input (line # rest) validator =
     (let response = lower (strip line)
      in if validator response then Inr (response, rest)
         else get_valid_input rest validator)"

text \<open>
  A word-list file is given by the rows \<open>csv.reader\<close> yields for it; a name that is
  absent stands for a file that does not exist or cannot be read, both of which give
  the empty list.
\<close>

type_synonym csv_files = "string \<rightharpoonup> string list list"

definition load_word_list :: "csv_files \<Rightarrow> string \<Rightarrow> string list" where
  "load_word_list csvs filename =
     (case csvs filename of
        None \<Rightarrow> []
      | Some rows \<Rightarrow> [lower (hd row). row \<leftarrow> rows, row \<noteq> [] \<and> isalpha (strip (hd row))])"

text \<open>\<open>random.choice(xs)\<close> on a non-empty list, the draw being \<open>pick\<close>.\<close>

definition random_choice :: "nat \<Rightarrow> 'a list \<Rightarrow> 'a" where
  "random_choice pick xs = xs ! (pick mod length xs)"

definition candidate_words :: "csv_files \<Rightarrow> string \<Rightarrow> nat \<Rightarrow> nat \<Rightarrow> string list" where
  "candidate_words csvs difficulty min_len max_len =
     [w \<leftarrow> load_word_list csvs CUSTOM_WORD_FILE @ load_word_list csvs (difficulty @ ''_words.csv'').
        min_len \<le> length w \<and> length w \<le> max_len]"

definition new_game :: "csv_files \<Rightarrow> string list \<Rightarrow> nat \<Rightarrow> error + game_state" where
  "new_game csvs lines pick =
     (case get_valid_input lines (\<lambda>d. d \<in> dom DIFFICULTY_PARAMS) of
        Inl e \<Rightarrow> Inl e
      | Inr (difficulty, rest) \<Rightarrow>
          (case DIFFICULTY_PARAMS difficulty of
             None \<Rightarrow> Inl KeyError
           | Some (min_len, max_len) \<Rightarrow>
               (let words = candidate_words csvs difficulty min_len max_len
                in if words = [] then Inl NoWordsAvailable
                   else Inr (create_game_state (random_choice pick words) [] MAX_SCORE INITIAL_TIME))))"


section \<open>The game loop\<close>

text \<open>
  One pass through the body of \<open>game_loop\<close> consumes a \<open>turn_input\<close>: the line typed at
  the guess prompt, the seconds the player took, the line typed at the file-name prompt
  (read only when the guess is \<open>save\<close>) and the random draw for the hint. The pass ends
  in one of five ways: the loop goes round again (\<open>InProgress\<close>), or it returns after
  a win, after the time ran out, after the score ran out, or after saving.
\<close>

datatype status = InProgress | Won | LostTime | LostScore | SavedExit

record turn_input =
  raw :: string
  elapsed :: real
  save_name :: string
  pick :: nat

definition word_covered :: "game_state \<Rightarrow> bool" where
  "word_covered state = list_all (\<lambda>l. [l] \<in> set (guessed_letters state)) (word state)"

definition missing_letters :: "game_state \<Rightarrow> string" where
  "missing_letters state = [l \<leftarrow> word state. [l] \<notin> set (guessed_letters state)]"

text \<open>Lines 185 to 195: the guess is recorded and both branches charge ten points.\<close>

definition score_guess :: "game_state \<Rightarrow> string \<Rightarrow> game_state" where
  "score_guess state guess =
     (let (state', correct) = add_guess state guess
      in if \<not> correct
         then state'\<lparr>incorrect_guesses := incorrect_guesses state' - 1,
                      score := score state' - 10\<rparr>
         else state'\<lparr>incorrect_guesses := incorrect_guesses state' + 1,
                      score := score state' - 10\<rparr>)"

text \<open>Lines 207 to 212: the hint, with the letter it prints.\<close>

definition give_hint :: "game_state \<Rightarrow> nat \<Rightarrow> game_state \<times> char option" where
  "give_hint state draw =
     (if incorrect_guesses state \<ge> HINT_THRESHOLD \<and> \<not> hint_used state
      then (let missing = missing_letters state
            in if missing \<noteq> []
               then (state\<lparr>hint_used := True\<rparr>, Some (random_choice draw missing))
               else (state, None))
      else (state, None))"

definition game_turn ::
  "files \<Rightarrow> game_state \<Rightarrow> turn_input \<Rightarrow> files \<times> game_state \<times> status \<times> char option" where
  "game_turn fs state inp =
     (let guess = lower (strip (raw inp))
      in if guess = ''save''
         then (save_game_state fs (strip (save_name inp)) state, state, SavedExit, None)
         else
           (let (state1, in_time) = update_time state (elapsed inp)
            in if \<not> in_time then (fs, state1, LostTime, None)
               else if guess = word state1 then (fs, state1, Won, None)
               else if length guess = 1 \<and> isalpha guess \<and> guess \<in> set (guessed_letters state1)
               then (fs, state1, InProgress, None)
               else
                 (let state2 = score_guess state1 guess
                  in if word_covered state2 then (fs, state2, Won, None)
                     else if score state2 \<le> 0 then (fs, state2, LostScore, None)
                     else (let (state3, hint) = give_hint state2 (pick inp)
                           in (fs, state3, InProgress, hint)))))"

text \<open>
  The loop itself, over the turns the player has taken so far. It reports the files,
  the state and how the last pass ended, the hints printed on the way, and the number
  of passes made; \<open>InProgress\<close> at the end means the loop is waiting at the prompt.
\<close>

record round_result =
  final_files :: files
  final_state :: game_state
  final_status :: status
  hints :: "char list"
  turns :: nat

fun game_loop :: "files \<Rightarrow> game_state \<Rightarrow> turn_input list \<Rightarrow> round_result" where
  "game_loop fs state [] =
     \<lparr> final_files = fs, final_state = state, final_status = InProgress, hints = [], turns = 0 \<rparr>"
| "game_loop fs state (inp # inps) =
     (case game_turn fs state inp of
        (fs', state', st, hint) \<Rightarrow>
          if st = InProgress
          then (let r = game_loop fs' state' inps
                in r\<lparr> hints := (case hint of None \<Rightarrow> [] | Some l \<Rightarrow> [l]) @ hints r,
                      turns := Suc (turns r) \<rparr>)
          else \<lparr> final_files = fs', final_state = state', final_status = st,
                 hints = [], turns = 1 \<rparr>)"


section \<open>Example rounds\<close>

text \<open>A turn taken with no time elapsed, and the state \<open>new_game\<close> builds for a word.\<close>

definition turn :: "string \<Rightarrow> turn_input" where
  "turn g = \<lparr> raw = g, elapsed = 0, save_name = '''', pick = 0 \<rparr>"

definition new_round :: "string \<Rightarrow> game_state" where
  "new_round w = create_game_state w [] MAX_SCORE INITIAL_TIME"

definition saved_round :: game_state where
  "saved_round = create_game_state ''cat'' [''c''] 100 25"

definition late_turn :: turn_input where
  "late_turn = \<lparr> raw = ''z'', elapsed = 31, save_name = '''', pick = 0 \<rparr>"

definition four_line_file :: files where
  "four_line_file =
     [''old.save'' \<mapsto> ''cat'' @ [nl] @ ''c,a'' @ [nl] @ ''90'' @ [nl] @ ''25'' @ [nl]]"

definition after_x :: game_state where
  "after_x = \<lparr> word = ''cat'', guessed_letters = [''x''], score = 90, time_left = 30,
               incorrect_guesses = - 1, hint_used = False \<rparr>"

definition word_files :: csv_files where
  "word_files = [''custom_words.csv'' \<mapsto> [[''Lamp''], [''two words''], [], [''piano'', ''x'']],
                 ''easy_words.csv'' \<mapsto> [[''tree''], [''elephant''], [''sun'']]]"

definition ten_wrong_letters :: "turn_input list" where
  "ten_wrong_letters =
     map turn [''b'', ''d'', ''e'', ''f'', ''g'', ''h'', ''i'', ''j'', ''k'', ''l'', ''m'']"

text \<open>
  A wrong guess that changes the state, made with the clock standing still: the input
  is not \<open>save\<close>, no whole second has elapsed, the guess does not occur in the word, and
  it is not a single letter guessed before. \<open>all_wrong\<close> says so of every turn of a
  list, each turn judged in the state the turns before it have left.
\<close>

definition wrong_guess :: "game_state \<Rightarrow> turn_input \<Rightarrow> bool" where
  "wrong_guess state inp =
     (let guess = lower (strip (raw inp))
      in guess \<noteq> ''save''
         \<and> int_of_float (elapsed inp) = 0
         \<and> \<not> str_in guess (word state)
         \<and> \<not> (length guess = 1 \<and> isalpha guess \<and> guess \<in> set (guessed_letters state)))"

fun all_wrong :: "files \<Rightarrow> game_state \<Rightarrow> turn_input list \<Rightarrow> bool" where
  "all_wrong fs state [] = True"
| "all_wrong fs state (inp # inps) =
     (wrong_guess state inp
      \<and> (case game_turn fs state inp of (fs', state', st, hint) \<Rightarrow> all_wrong fs' state' inps))"


section \<open>What one turn does\<close>

text \<open>
  Facts about the pieces of a turn, used below: the fields \<open>score_guess\<close> and
  \<open>give_hint\<close> leave alone, what a scored guess costs, and how the hint behaves.
\<close>

lemma str_in_single: "l \<in> set w \<Longrightarrow> str_in [l] w"
  by (induction w) auto

lemma starts_with_refl: "starts_with w w"
  by (induction w) auto

lemma str_in_refl: "str_in w w"
  by (cases w) (auto simp: starts_with_refl)

lemma score_guess_fields:
  "word (score_guess state g) = word state"
  "time_left (score_guess state g) = time_left state"
  "score (score_guess state g) = score state - 10"
  "hint_used (score_guess state g) = hint_used state"
  "guessed_letters (score_guess state g) = List.insert g (guessed_letters state)"
  by (simp_all add: score_guess_def add_guess_def Let_def)

lemma give_hint_fields:
  "word (fst (give_hint state d)) = word state"
  "time_left (fst (give_hint state d)) = time_left state"
  "score (fst (give_hint state d)) = score state"
  "guessed_letters (fst (give_hint state d)) = guessed_letters state"
  "incorrect_guesses (fst (give_hint state d)) = incorrect_guesses state"
  by (simp_all add: give_hint_def Let_def)

lemma word_covered_cong:
  "word s' = word s \<Longrightarrow> guessed_letters s' = guessed_letters s \<Longrightarrow>
   word_covered s' = word_covered s"
  by (simp add: word_covered_def)

lemma wrong_keeps_cover:
  assumes "\<not> str_in g (word state)"
  shows "word_covered (score_guess state g) = word_covered state"
proof -
  have "\<And>l. l \<in> set (word state) \<Longrightarrow> [l] \<noteq> g"
    using assms str_in_single by blast
  then show ?thesis
    by (auto simp: word_covered_def score_guess_fields list_all_iff)
qed

text \<open>
  A guess that reaches the scoring lines costs ten points and is stored, whatever it
  is; the counter goes up when the guess occurs in the word and down when it does not.
\<close>

lemma scored_guess_effect:
  assumes "lower (strip (raw inp)) = guess" and "guess \<noteq> ''save''"
    and "0 < time_left state - int_of_float (elapsed inp)"
    and "guess \<noteq> word state"
    and "\<not> (length guess = 1 \<and> isalpha guess \<and> guess \<in> set (guessed_letters state))"
    and "game_turn fs state inp = (fs', state', st, hint)"
  shows "score state' = score state - 10
         \<and> incorrect_guesses state'
             = incorrect_guesses state + (if str_in guess (word state) then 1 else - 1)
         \<and> guessed_letters state' = List.insert guess (guessed_letters state)"
proof -
  let ?s1 = "state\<lparr>time_left := time_left state - int_of_float (elapsed inp)\<rparr>"
  let ?s2 = "score_guess ?s1 guess"
  have u: "update_time state (elapsed inp) = (?s1, True)"
    using assms(3) by (simp add: update_time_def Let_def)
  have f: "score ?s2 = score state - 10"
    "incorrect_guesses ?s2
       = incorrect_guesses state + (if str_in guess (word state) then 1 else - 1)"
    "guessed_letters ?s2 = List.insert guess (guessed_letters state)"
    by (simp_all add: score_guess_def add_guess_def Let_def)
  have "state' = ?s2 \<or> state' = fst (give_hint ?s2 (pick inp))"
    using assms(1,2,4,5,6)
    by (auto simp: game_turn_def u Let_def split_beta split: if_splits)
  then show ?thesis
    using f by (auto simp: give_hint_fields)
qed

text \<open>
  The hint flag is never reset, a hint is only printed while the flag is unset and the
  counter is at least three, and the letter printed is a letter of the word that has
  not been guessed; so a round prints at most one hint.
\<close>

lemma hint_used_stays:
  assumes "hint_used state" and "game_turn fs state inp = (fs', state', st, hint)"
  shows "hint_used state' \<and> hint = None"
proof -
  let ?s1 = "fst (update_time state (elapsed inp))"
  let ?s2 = "score_guess ?s1 (lower (strip (raw inp)))"
  have h1: "hint_used ?s1" using assms(1) by (simp add: update_time_def Let_def)
  then have h2: "hint_used ?s2" by (simp add: score_guess_fields)
  then have g: "give_hint ?s2 (pick inp) = (?s2, None)" by (simp add: give_hint_def)
  show ?thesis
    using assms h1 h2
    by (auto simp: game_turn_def g Let_def split_beta split: if_splits)
qed

lemma hint_letter_is_missing:
  assumes "game_turn fs state inp = (fs', state', st, Some l)"
  shows "l \<in> set (word state') \<and> [l] \<notin> set (guessed_letters state')
         \<and> \<not> hint_used state \<and> hint_used state'
         \<and> HINT_THRESHOLD \<le> incorrect_guesses state'"
proof -
  let ?s2 = "score_guess (fst (update_time state (elapsed inp))) (lower (strip (raw inp)))"
  from assms have g: "give_hint ?s2 (pick inp) = (state', Some l)"
    by (auto simp: game_turn_def Let_def split_beta prod_eq_iff split: if_splits)
  then have h: "HINT_THRESHOLD \<le> incorrect_guesses ?s2" "\<not> hint_used ?s2"
    and m: "missing_letters ?s2 \<noteq> []"
    and s: "state' = ?s2\<lparr>hint_used := True\<rparr>"
    and l: "l = random_choice (pick inp) (missing_letters ?s2)"
    by (auto simp: give_hint_def Let_def split: if_splits)
  from m l have "l \<in> set (missing_letters ?s2)"
    by (simp add: random_choice_def)
  then have "l \<in> set (word ?s2) \<and> [l] \<notin> set (guessed_letters ?s2)"
    by (simp add: missing_letters_def)
  moreover from h(2) have "\<not> hint_used state"
    by (simp add: score_guess_fields update_time_def Let_def)
  ultimately show ?thesis using s h(1) by simp
qed

lemma one_hint_per_round:
  "length (hints (game_loop fs state inps)) \<le> (if hint_used state then 0 else 1)"
proof (induction inps arbitrary: fs state)
  case Nil
  show ?case by simp
next
  case (Cons inp inps)
  obtain fs' state' st hint where g: "game_turn fs state inp = (fs', state', st, hint)"
    by (cases "game_turn fs state inp") auto
  show ?case
  proof (cases hint)
    case None
    have "hint_used state \<Longrightarrow> hint_used state'"
      using hint_used_stays g by blast
    with Cons.IH [of fs' state'] show ?thesis
      by (auto simp: g None Let_def split: if_splits)
  next
    case (Some l)
    with g hint_letter_is_missing have "\<not> hint_used state" "hint_used state'"
      by blast+
    with Cons.IH [of fs' state'] show ?thesis
      by (simp add: g Some Let_def)
  qed
qed


section \<open>Saving and loading\<close>

text \<open>
  The text \<open>save_game_state\<close> writes has exactly three lines whenever the word and
  the guessed letters hold no line break, and a file of three lines never loads.
\<close>

lemma universal_newlines_id: "cr \<notin> set s \<Longrightarrow> universal_newlines s = s"
  by (induction s rule: universal_newlines.induct) auto

lemma split_at_sep: "sep \<notin> set a \<Longrightarrow> split sep (a @ sep # rest) = a # split sep rest"
  by (induction a) auto

lemma split_three_lines:
  assumes "sep \<notin> set a" and "sep \<notin> set b" and "sep \<notin> set c"
  shows "split sep (a @ sep # b @ sep # c @ [sep]) = [a, b, c, []]"
  using assms by (simp add: split_at_sep)

lemma digit_char_is_digit: "k < 10 \<Longrightarrow> isdigit_char (char_of (48 + k))" for k :: nat
  by (simp add: isdigit_char_def)

lemma str_nat_digits: "c \<in> set (str_nat n) \<Longrightarrow> isdigit_char c"
proof (induction n rule: str_nat.induct)
  case (1 n)
  show ?case
  proof (cases "n < 10")
    case True
    then have "str_nat n = [char_of (48 + n)]"
      by (subst str_nat.simps) simp
    with 1(2) True digit_char_is_digit [of n] show ?thesis
      by simp
  next
    case False
    then have "str_nat n = str_nat (n div 10) @ [char_of (48 + n mod 10)]"
      by (subst str_nat.simps) simp
    with 1(2) have "c \<in> set (str_nat (n div 10)) \<or> c = char_of (48 + n mod 10)"
      by auto
    moreover have "isdigit_char (char_of (48 + n mod 10))"
      by (rule digit_char_is_digit) simp
    ultimately show ?thesis
      using 1(1) [OF False] by blast
  qed
qed

lemma str_int_no_break: "nl \<notin> set (str_int i) \<and> cr \<notin> set (str_int i)"
proof -
  have "\<not> isdigit_char nl" "\<not> isdigit_char cr"
    by (simp_all add: isdigit_char_def nl_def cr_def)
  then have "nl \<notin> set (str_nat n) \<and> cr \<notin> set (str_nat n)" for n
    using str_nat_digits by blast
  then show ?thesis
    by (simp add: str_int_def nl_def cr_def)
qed

lemma join_no_char:
  "c \<notin> set sep \<Longrightarrow> \<forall>x \<in> set xs. c \<notin> set x \<Longrightarrow> c \<notin> set (join sep xs)"
  by (induction sep xs rule: join.induct) auto

lemma save_text_three_lines:
  assumes "nl \<notin> set (word state)" and "cr \<notin> set (word state)"
    and "\<forall>g \<in> set (guessed_letters state). nl \<notin> set g \<and> cr \<notin> set g"
  shows "file_lines (save_text state)
         = [word state @ '' '', join '','' (guessed_letters state), str_int (time_left state)]"
proof -
  define a where "a = word state @ '' ''"
  define b where "b = join '','' (guessed_letters state)"
  define c where "c = str_int (time_left state)"
  have a: "nl \<notin> set a" "cr \<notin> set a"
    using assms(1,2) by (simp_all add: a_def nl_def cr_def)
  have b: "nl \<notin> set b" "cr \<notin> set b"
    using assms(3) by (simp_all add: b_def join_no_char nl_def cr_def)
  have c: "nl \<notin> set c" "cr \<notin> set c"
    using str_int_no_break by (simp_all add: c_def)
  have t: "save_text state = a @ nl # b @ nl # c @ [nl]"
    by (simp add: save_text_def a_def b_def c_def)
  have "cr \<notin> set (save_text state)"
    using a(2) b(2) c(2) unfolding t by (simp add: nl_def cr_def)
  then have u: "universal_newlines (save_text state) = save_text state"
    by (rule universal_newlines_id)
  have "split nl (save_text state) = [a, b, c, []]"
    unfolding t using a(1) b(1) c(1) by (rule split_three_lines)
  then show ?thesis
    by (simp add: file_lines_def u a_def b_def c_def)
qed

lemma saved_text_never_loads:
  assumes "nl \<notin> set (word state)" and "cr \<notin> set (word state)"
    and "\<forall>g \<in> set (guessed_letters state). nl \<notin> set g \<and> cr \<notin> set g"
  shows "parse_save (save_text state) = None"
  by (simp add: parse_save_def save_text_three_lines [OF assms])

text \<open>
  C1. Saving a state and loading the text back should give a state with the same word,
  guessed letters and remaining time. The saved file has three lines, the loader reads
  four (word, letters, score, time), so loading what was just saved runs past the last
  line and returns nothing: here for the word \<open>cat\<close> with \<open>c\<close> guessed and 25 seconds
  left.
\<close>

theorem save_then_load_fails:
  "file_lines (save_text saved_round) = [''cat '', ''c'', ''25'']
   \<and> load_game_state (save_game_state Map.empty ''game one'' saved_round) ''game one'' = None"
  by code_simp

text \<open>
  C10. Whatever file \<open>load_game_state\<close> reads successfully, the state it returns has
  no incorrect guesses counted and the hint unused.
\<close>

theorem load_resets_counters:
  assumes "load_game_state fs filename = Some state"
  shows "incorrect_guesses state = 0 \<and> \<not> hint_used state"
  using assms
  by (auto simp: load_game_state_def parse_save_def create_game_state_def
           split: option.splits list.splits)

theorem load_resets_counters_witness:
  "\<exists>state. load_game_state four_line_file ''old'' = Some state
     \<and> word state = ''cat'' \<and> score state = 90 \<and> time_left state = 25
     \<and> incorrect_guesses state = 0 \<and> \<not> hint_used state"
proof -
  have l: "load_game_state four_line_file ''old''
           = Some (create_game_state ''cat'' [''c'', ''a''] 90 25)"
    by code_simp
  have w: "word (create_game_state ''cat'' [''c'', ''a''] 90 25) = ''cat''"
    by code_simp
  from load_resets_counters [OF l] l w show ?thesis
    by (simp add: create_game_state_def)
qed


section \<open>Scoring a guess\<close>

text \<open>
  C2. A fresh letter that is not in the word should add one to the incorrect guesses and
  take ten points; a fresh letter of the word should leave both alone. In a new round
  on \<open>cat\<close> the wrong letter \<open>x\<close> takes the counter to -1, and the right letter \<open>c\<close>
  costs ten points and takes the counter to 1.
\<close>

theorem letter_guess_scoring_at_cat:
  "(case game_turn Map.empty (new_round ''cat'') (turn ''x'') of
      (fs, state, st, hint) \<Rightarrow>
        st = InProgress \<and> incorrect_guesses state = - 1 \<and> score state = 90)
   \<and> (case game_turn Map.empty (new_round ''cat'') (turn ''c'') of
      (fs, state, st, hint) \<Rightarrow>
        st = InProgress \<and> incorrect_guesses state = 1 \<and> score state = 90)"
  by code_simp

text \<open>
  C3. Input that is neither \<open>save\<close>, nor the word, nor a single letter should be turned
  away with the state untouched. In a new round on \<open>cat\<close> the inputs \<open>zz\<close> and \<open>7\<close> are
  each stored among the guessed letters and charged ten points.
\<close>

theorem invalid_input_is_scored:
  "(case game_turn Map.empty (new_round ''cat'') (turn ''zz'') of
      (fs, state, st, hint) \<Rightarrow>
        st = InProgress \<and> guessed_letters state = [''zz'']
        \<and> incorrect_guesses state = - 1 \<and> score state = 90)
   \<and> (case game_turn Map.empty (new_round ''cat'') (turn ''7'') of
      (fs, state, st, hint) \<Rightarrow>
        st = InProgress \<and> guessed_letters state = [''7'']
        \<and> incorrect_guesses state = - 1 \<and> score state = 90)"
  by code_simp

text \<open>
  C4. The hint should come only once three wrong guesses have been made. In a new round
  on \<open>hello\<close> the three right letters \<open>h\<close>, \<open>e\<close>, \<open>l\<close> bring the counter to 3 and the
  hint \<open>o\<close> is printed with no wrong guess made; the three wrong letters \<open>x\<close>, \<open>y\<close>,
  \<open>z\<close> bring it to -3 and no hint is printed.
\<close>

theorem hint_after_three_correct_letters:
  "list_all (\<lambda>g. str_in g ''hello'') [''h'', ''e'', ''l'']
   \<and> (let r = game_loop Map.empty (new_round ''hello'') (map turn [''h'', ''e'', ''l''])
      in final_status r = InProgress \<and> hints r = ''o''
         \<and> hint_used (final_state r) \<and> incorrect_guesses (final_state r) = 3)
   \<and> (let r = game_loop Map.empty (new_round ''hello'') (map turn [''x'', ''y'', ''z''])
      in final_status r = InProgress \<and> hints r = []
         \<and> \<not> hint_used (final_state r) \<and> incorrect_guesses (final_state r) = - 3)"
  by code_simp

text \<open>
  C5. The round on \<open>cat\<close> with the guesses \<open>x\<close>, \<open>c\<close>, \<open>a\<close>, \<open>t\<close> and no time elapsed
  should be won with 90 points and no hint. It is won on the fourth guess with no hint,
  and the score is 60: each of the four guesses cost ten points.
\<close>

theorem cat_scenario_score:
  "(let r = game_loop Map.empty (new_round ''cat'') (map turn [''x'', ''c'', ''a'', ''t''])
    in final_status r = Won \<and> turns r = 4 \<and> hints r = [] \<and> score (final_state r) = 60)"
  by code_simp


section \<open>The clock and repeated letters\<close>

text \<open>
  C6. On every turn (any input but \<open>save\<close>, which leaves the loop before the clock is
  read) the remaining time is first reduced by the elapsed seconds with the fraction
  dropped towards zero; when the result is zero or less the round ends as lost on time
  with nothing else in the state changed, so the guess is never looked at. The round on
  \<open>bat\<close> with 30 seconds and the guess \<open>z\<close> after 31 seconds is the instance below.
\<close>

theorem time_checked_first:
  assumes "lower (strip (raw inp)) \<noteq> ''save''"
    and "game_turn fs state inp = (fs', state', st, hint)"
  shows "time_left state' = time_left state - int_of_float (elapsed inp)
         \<and> \<bar>real_of_int (int_of_float (elapsed inp))\<bar> \<le> \<bar>elapsed inp\<bar>
         \<and> \<bar>elapsed inp - real_of_int (int_of_float (elapsed inp))\<bar> < 1
         \<and> (time_left state - int_of_float (elapsed inp) \<le> 0 \<longrightarrow>
              st = LostTime \<and> hint = None \<and> fs' = fs
              \<and> state' = state\<lparr>time_left := time_left state - int_of_float (elapsed inp)\<rparr>)"
proof -
  have t: "\<bar>real_of_int (int_of_float (elapsed inp))\<bar> \<le> \<bar>elapsed inp\<bar>
         \<and> \<bar>elapsed inp - real_of_int (int_of_float (elapsed inp))\<bar> < 1"
    unfolding int_of_float_def by (auto; linarith)
  have s: "time_left state' = time_left state - int_of_float (elapsed inp)"
    using assms
    by (auto simp: game_turn_def update_time_def Let_def score_guess_def add_guess_def
          give_hint_def split: if_splits)
  have l: "time_left state - int_of_float (elapsed inp) \<le> 0 \<Longrightarrow>
              st = LostTime \<and> hint = None \<and> fs' = fs
              \<and> state' = state\<lparr>time_left := time_left state - int_of_float (elapsed inp)\<rparr>"
    using assms
    by (auto simp: game_turn_def update_time_def Let_def split: if_splits)
  from t s l show ?thesis by blast
qed

theorem time_checked_first_witness:
  "lower (strip (raw late_turn)) \<noteq> ''save''
   \<and> time_left (new_round ''bat'') = 30 \<and> int_of_float (elapsed late_turn) = 31
   \<and> (\<exists>fs' state' st hint.
         game_turn Map.empty (new_round ''bat'') late_turn = (fs', state', st, hint)
         \<and> st = LostTime \<and> hint = None \<and> time_left state' = - 1
         \<and> guessed_letters state' = [] \<and> score state' = 100
         \<and> incorrect_guesses state' = 0)"
proof -
  have a: "lower (strip (raw late_turn)) \<noteq> ''save''" by code_simp
  have b: "time_left (new_round ''bat'') = 30" by code_simp
  have c: "int_of_float (elapsed late_turn) = 31" by code_simp
  have d: "guessed_letters (new_round ''bat'') = [] \<and> score (new_round ''bat'') = 100
           \<and> incorrect_guesses (new_round ''bat'') = 0"
    by code_simp
  obtain fs' state' st hint
    where g: "game_turn Map.empty (new_round ''bat'') late_turn = (fs', state', st, hint)"
    by (cases "game_turn Map.empty (new_round ''bat'') late_turn") auto
  from time_checked_first [OF a g] a b c d g show ?thesis
    by simp
qed

text \<open>
  C7. A single letter that is already among the guessed letters is not charged again:
  the turn leaves the score, the incorrect guesses and the guessed letters as they
  were, whether or not the letter is in the word.
\<close>

theorem repeated_letter_changes_nothing:
  assumes "guess = lower (strip (raw inp))"
    and "length guess = 1" and "isalpha guess"
    and "guess \<in> set (guessed_letters state)"
    and "game_turn fs state inp = (fs', state', st, hint)"
  shows "score state' = score state
         \<and> incorrect_guesses state' = incorrect_guesses state
         \<and> guessed_letters state' = guessed_letters state"
proof -
  from assms(1,2) have ns: "lower (strip (raw inp)) \<noteq> ''save''" by auto
  show ?thesis
    using assms(5) assms(2-4) ns unfolding assms(1)
    by (auto simp: game_turn_def update_time_def Let_def split: if_splits)
qed

theorem repeated_letter_changes_nothing_witness:
  "snd (game_turn Map.empty (new_round ''cat'') (turn ''x'')) = (after_x, InProgress, None)
   \<and> length ''x'' = 1 \<and> isalpha ''x'' \<and> ''x'' \<in> set (guessed_letters after_x)
   \<and> (\<exists>fs' state' st hint.
         game_turn Map.empty after_x (turn ''X '') = (fs', state', st, hint)
         \<and> score state' = 90 \<and> incorrect_guesses state' = - 1
         \<and> guessed_letters state' = [''x''])"
proof -
  have f: "snd (game_turn Map.empty (new_round ''cat'') (turn ''x'')) = (after_x, InProgress, None)"
    by code_simp
  have a: "''x'' = lower (strip (raw (turn ''X '')))" by code_simp
  have b: "length ''x'' = 1" by simp
  have c: "isalpha ''x''" by code_simp
  have d: "''x'' \<in> set (guessed_letters after_x)" by code_simp
  obtain fs' state' st hint
    where g: "game_turn Map.empty after_x (turn ''X '') = (fs', state', st, hint)"
    by (cases "game_turn Map.empty after_x (turn ''X '')") auto
  have v: "score after_x = 90 \<and> incorrect_guesses after_x = - 1
           \<and> guessed_letters after_x = [''x'']"
    by (simp add: after_x_def)
  from repeated_letter_changes_nothing [OF a b c d g] f b c d g v show ?thesis
    by simp
qed


section \<open>Running out of score\<close>

lemma wrong_turn:
  assumes w: "wrong_guess state inp" and t: "0 < time_left state"
  shows "game_turn fs state inp =
     (let state2 = score_guess state (lower (strip (raw inp)))
      in if word_covered state then (fs, state2, Won, None)
         else if score state \<le> 10 then (fs, state2, LostScore, None)
         else (fs, fst (give_hint state2 (pick inp)), InProgress,
               snd (give_hint state2 (pick inp))))"
proof -
  let ?g = "lower (strip (raw inp))"
  from w have ns: "?g \<noteq> ''save''" and e: "int_of_float (elapsed inp) = 0"
    and ni: "\<not> str_in ?g (word state)"
    and fr: "\<not> (length ?g = 1 \<and> isalpha ?g \<and> ?g \<in> set (guessed_letters state))"
    by (simp_all add: wrong_guess_def Let_def)
  from ni have nw: "?g \<noteq> word state" using str_in_refl by metis
  have u: "update_time state (elapsed inp) = (state, True)"
    using e t by (simp add: update_time_def Let_def)
  show ?thesis
    using ns nw fr wrong_keeps_cover [OF ni]
    by (auto simp add: game_turn_def u Let_def score_guess_fields split_beta)
qed

lemma score_runs_out:
  assumes "score state = 10 * int (Suc k)" and "0 < time_left state"
    and "\<not> word_covered state"
    and "Suc k \<le> length inps" and "all_wrong fs state (take (Suc k) inps)"
  shows "final_status (game_loop fs state inps) = LostScore
         \<and> turns (game_loop fs state inps) = Suc k
         \<and> score (final_state (game_loop fs state inps)) = 0"
  using assms
proof (induction k arbitrary: fs state inps)
  case 0
  then obtain inp rest where i: "inps = inp # rest" by (cases inps) auto
  with 0 have w: "wrong_guess state inp" by simp
  show ?case
    using 0(1,3) wrong_turn [OF w 0(2), of fs]
    by (simp add: i Let_def score_guess_fields)
next
  case (Suc k)
  then obtain inp rest where i: "inps = inp # rest" by (cases inps) auto
  let ?s2 = "score_guess state (lower (strip (raw inp)))"
  let ?s3 = "fst (give_hint ?s2 (pick inp))"
  from Suc.prems i have w: "wrong_guess state inp" by simp
  from w have ni: "\<not> str_in (lower (strip (raw inp))) (word state)"
    by (simp add: wrong_guess_def Let_def)
  have gt: "game_turn fs state inp = (fs, ?s3, InProgress, snd (give_hint ?s2 (pick inp)))"
    using Suc.prems(1,3) wrong_turn [OF w Suc.prems(2), of fs] by (simp add: Let_def)
  have sc: "score ?s3 = 10 * int (Suc k)"
    using Suc.prems(1) by (simp add: give_hint_fields score_guess_fields)
  have tm: "0 < time_left ?s3"
    using Suc.prems(2) by (simp add: give_hint_fields score_guess_fields)
  have "word_covered ?s3 = word_covered ?s2"
    by (rule word_covered_cong) (simp_all add: give_hint_fields)
  with wrong_keeps_cover [OF ni] Suc.prems(3) have nc: "\<not> word_covered ?s3" by simp
  have ln: "Suc k \<le> length rest" using Suc.prems(4) i by simp
  have aw: "all_wrong fs ?s3 (take (Suc k) rest)"
    using Suc.prems(5) i gt by simp
  from Suc.IH [OF sc tm nc ln aw] show ?case
    by (simp add: i gt Let_def)
qed

text \<open>
  C8. From the initial score of 100, with time left and the clock standing still, a
  round in which every guess is wrong and changes the state is over within ten guesses:
  it ends on the score check at exactly the tenth, unless the word was already covered
  by the guessed letters, in which case the first guess ends it.
\<close>

theorem score_exhaustion_bound:
  assumes "score state = MAX_SCORE" and "0 < time_left state"
    and "10 \<le> length inps" and "all_wrong fs state (take 10 inps)"
  shows "final_status (game_loop fs state inps) \<noteq> InProgress
         \<and> turns (game_loop fs state inps) \<le> 10
         \<and> (\<not> word_covered state \<longrightarrow>
              final_status (game_loop fs state inps) = LostScore
              \<and> turns (game_loop fs state inps) = 10
              \<and> score (final_state (game_loop fs state inps)) = 0)"
proof (cases "word_covered state")
  case True
  from assms(3) obtain inp rest where i: "inps = inp # rest" by (cases inps) auto
  with assms(4) have w: "wrong_guess state inp" by simp
  show ?thesis
    using True wrong_turn [OF w assms(2), of fs] by (simp add: i Let_def)
next
  case False
  have s: "score state = 10 * int (Suc 9)" using assms(1) by (simp add: MAX_SCORE_def)
  have l: "Suc 9 \<le> length inps" using assms(3) by simp
  have a: "all_wrong fs state (take (Suc 9) inps)" using assms(4) by simp
  from score_runs_out [OF s assms(2) False l a] False show ?thesis by simp
qed

theorem score_exhaustion_bound_witness:
  "score (new_round ''cat'') = MAX_SCORE \<and> 0 < time_left (new_round ''cat'')
   \<and> 10 \<le> length ten_wrong_letters
   \<and> all_wrong Map.empty (new_round ''cat'') (take 10 ten_wrong_letters)
   \<and> \<not> word_covered (new_round ''cat'')
   \<and> final_status (game_loop Map.empty (new_round ''cat'') ten_wrong_letters) = LostScore
   \<and> turns (game_loop Map.empty (new_round ''cat'') ten_wrong_letters) = 10
   \<and> score (final_state (game_loop Map.empty (new_round ''cat'') ten_wrong_letters)) = 0"
proof -
  have a: "score (new_round ''cat'') = MAX_SCORE" by code_simp
  have b: "0 < time_left (new_round ''cat'')" by code_simp
  have c: "10 \<le> length ten_wrong_letters" by code_simp
  have d: "all_wrong Map.empty (new_round ''cat'') (take 10 ten_wrong_letters)" by code_simp
  have e: "\<not> word_covered (new_round ''cat'')" by code_simp
  from score_exhaustion_bound [OF a b c d] a b c d e show ?thesis by blast
qed


section \<open>Choosing the word\<close>

lemma lower_char_idem: "lower_char (lower_char c) = lower_char c"
  by (auto simp: lower_char_def Let_def)

lemma lower_idem: "lower (lower s) = lower s"
  by (simp add: lower_def lower_char_idem)

lemma length_lower: "length (lower s) = length s"
  by (simp add: lower_def)

lemma get_valid_input_valid:
  "get_valid_input lines validator = Inr (response, rest) \<Longrightarrow> validator response"
  by (induction lines) (auto simp: Let_def split: if_splits)

lemma load_word_list_lower: "w \<in> set (load_word_list csvs filename) \<Longrightarrow> lower w = w"
  by (auto simp: load_word_list_def lower_idem split: option.splits)

lemma candidate_words_lower:
  "w \<in> set (candidate_words csvs difficulty min_len max_len) \<Longrightarrow> lower w = w"
  by (auto simp: candidate_words_def load_word_list_lower)

lemma random_choice_mem: "xs \<noteq> [] \<Longrightarrow> random_choice draw xs \<in> set xs"
  by (simp add: random_choice_def)

lemma difficulty_cases:
  "DIFFICULTY_PARAMS d = Some (min_len, max_len) \<Longrightarrow>
   (d, min_len, max_len) \<in> {(''easy'', 4, 5), (''medium'', 6, 7), (''hard'', 8, 20)}"
  by (auto simp: DIFFICULTY_PARAMS_def split: if_splits)

text \<open>
  C9. Once the player has named a difficulty, it is easy, medium or hard with the length
  range 4 to 5, 6 to 7 or 8 to 20; \<open>new_game\<close> filters the custom list followed by the
  difficulty's list to that range, and either fails with \<open>NoWordsAvailable\<close> when
  nothing is left, or starts a round on a word of the filtered list, whose length is
  therefore in the range.
\<close>

theorem new_game_word_length:
  assumes "get_valid_input lines (\<lambda>d. d \<in> dom DIFFICULTY_PARAMS) = Inr (difficulty, rest)"
  shows "\<exists>min_len max_len.
           (difficulty, min_len, max_len) \<in> {(''easy'', 4, 5), (''medium'', 6, 7), (''hard'', 8, 20)}
           \<and> (let pool = [w \<leftarrow> load_word_list csvs CUSTOM_WORD_FILE
                                 @ load_word_list csvs (difficulty @ ''_words.csv'').
                            min_len \<le> length w \<and> length w \<le> max_len]
              in if pool = [] then new_game csvs lines draw = Inl NoWordsAvailable
                 else (\<exists>state. new_game csvs lines draw = Inr state
                        \<and> word state \<in> set pool
                        \<and> min_len \<le> length (word state) \<and> length (word state) \<le> max_len))"
proof -
  from get_valid_input_valid [OF assms] obtain min_len max_len
    where p: "DIFFICULTY_PARAMS difficulty = Some (min_len, max_len)" by auto
  let ?pool = "candidate_words csvs difficulty min_len max_len"
  have r: "?pool \<noteq> [] \<Longrightarrow> word (create_game_state (random_choice draw ?pool) [] MAX_SCORE INITIAL_TIME) \<in> set ?pool"
    using random_choice_mem [of ?pool draw] candidate_words_lower
    by (simp add: create_game_state_def)
  have b: "w \<in> set ?pool \<Longrightarrow> min_len \<le> length w \<and> length w \<le> max_len" for w
    by (auto simp: candidate_words_def)
  have "if ?pool = [] then new_game csvs lines draw = Inl NoWordsAvailable
        else (\<exists>state. new_game csvs lines draw = Inr state \<and> word state \<in> set ?pool
               \<and> min_len \<le> length (word state) \<and> length (word state) \<le> max_len)"
    using r b by (simp add: new_game_def assms p Let_def)
  then show ?thesis
    using difficulty_cases [OF p] unfolding candidate_words_def Let_def by blast
qed

theorem new_game_word_length_witness:
  "get_valid_input [''expert'', '' Easy ''] (\<lambda>d. d \<in> dom DIFFICULTY_PARAMS) = Inr (''easy'', [])
   \<and> (\<exists>state. new_game word_files [''expert'', '' Easy ''] 6 = Inr state
         \<and> word state \<in> {''lamp'', ''piano'', ''tree''}
         \<and> 4 \<le> length (word state) \<and> length (word state) \<le> 5)
   \<and> new_game word_files [''hard''] 6 = Inl NoWordsAvailable"
proof -
  have n: "new_game word_files [''hard''] 6 = Inl NoWordsAvailable"
    by code_simp
  have a: "get_valid_input [''expert'', '' Easy ''] (\<lambda>d. d \<in> dom DIFFICULTY_PARAMS)
           = Inr (''easy'', [])"
    by code_simp
  have p: "[w \<leftarrow> load_word_list word_files CUSTOM_WORD_FILE
                  @ load_word_list word_files (''easy'' @ ''_words.csv'').
             4 \<le> length w \<and> length w \<le> 5] = [''lamp'', ''piano'', ''tree'']"
    by code_simp
  from new_game_word_length [OF a, of word_files 6] obtain min_len max_len
    where m: "(''easy'', min_len, max_len)
                \<in> {(''easy'', 4, 5), (''medium'', 6, 7), (''hard'', 8, 20)}"
      and l: "let pool = [w \<leftarrow> load_word_list word_files CUSTOM_WORD_FILE
                                 @ load_word_list word_files (''easy'' @ ''_words.csv'').
                            min_len \<le> length w \<and> length w \<le> max_len]
              in if pool = [] then new_game word_files [''expert'', '' Easy ''] 6 = Inl NoWordsAvailable
                 else (\<exists>state. new_game word_files [''expert'', '' Easy ''] 6 = Inr state
                        \<and> word state \<in> set pool
                        \<and> min_len \<le> length (word state) \<and> length (word state) \<le> max_len)"
    by blast
  from m have r: "min_len = 4" "max_len = 5" by simp_all
  from l [unfolded r p Let_def] a n show ?thesis by simp
qed

end
